theory Spec2Isabelle
  imports Complex_Main
begin

section \<open>Session tracking of the WebXR demo (src/src/init.js)\<close>

text \<open>
  The file holds two versions of the module. The first (lines 1-154) tracks
  nothing; the second (from line 155 on) is the one modelled here. It keeps six
  module-level variables (lines 166-171) and two constants (lines 174-175). They
  are private to the module: only \<open>animate\<close> (lines 338-367) reads or writes
  them. JavaScript numbers are modelled as real numbers, exact arithmetic
  standing for the double arithmetic of the engine.
\<close>

subsection \<open>Data\<close>

text \<open>\<open>new THREE.Vector3()\<close> is the vector (0, 0, 0).\<close>

datatype Vector3 = Vector3 (vx: real) (vy: real) (vz: real)

record session =
  startTime :: real
  elapsedTime :: real
  lastLoggedTime :: real
  steps :: real
  totalDistance :: real
  previousPosition :: Vector3

definition initial :: session where
  "initial = \<lparr> startTime = 0, elapsedTime = 0, lastLoggedTime = 0, steps = 0,
     totalDistance = 0, previousPosition = Vector3 0 0 0 \<rparr>"

definition userHeight :: real where
  "userHeight = 152"

definition userWeight :: real where
  "userWeight = 50"

text \<open>
  What one rendered frame offers to \<open>animate\<close>: the values that
  \<open>clock.getDelta()\<close> and \<open>clock.getElapsedTime()\<close> return in that call, and the
  position of the player group (\<open>globals.player.position\<close>) at that moment.
  \<open>THREE.Clock\<close> and the renderer are libraries, so their values are inputs.
\<close>

record frame =
  clock_delta :: real
  clock_time :: real
  player_position :: Vector3

text \<open>
  Each \<open>console.log\<close> call writes one line, given by a template literal: pieces
  of literal text, and numbers converted by \<open>toFixed(n)\<close> or by the plain
  string conversion of \<open>${...}\<close>. Both conversions are built-ins of the engine
  and stay symbolic.
\<close>

datatype piece = Lit string | ToFixed real nat | ToStr real

datatype line = Line "piece list"

subsection \<open>Operations\<close>

definition calculateCaloriesBurned :: "real \<Rightarrow> real \<Rightarrow> real" where
  "calculateCaloriesBurned weight duration =
     (let caloriesPerMinute = 8 in (weight / 100) * caloriesPerMinute * duration)"

text \<open>
  One call of \<open>animate\<close>: the lines it logs and the module state it leaves. The
  calls to \<open>onFrame\<close> (the default, empty callback is the one \<open>index2.js\<close> uses),
  to \<open>renderer.render\<close> and to \<open>renderer.setAnimationLoop\<close> touch none of the six
  variables.
\<close>

definition animate :: "frame \<Rightarrow> session \<Rightarrow> line list \<times> session" where
  "animate f s =
     (let delta = clock_delta f;
          time = clock_time f;
          s1 = (if startTime s = 0 then s\<lparr>startTime := time\<rparr> else s);
          s2 = s1\<lparr>elapsedTime := elapsedTime s1 + delta\<rparr>
      in if elapsedTime s2 - lastLoggedTime s2 \<ge> 10
         then ([Line [Lit ''Time Elapsed: '', ToFixed (elapsedTime s2) 2, Lit '' seconds''],
                Line [Lit ''Steps Taken: '', ToStr (steps s2)],
                Line [Lit ''Total Distance: '', ToFixed (totalDistance s2) 2, Lit '' meters''],
                Line [Lit ''Calories Burned: '',
                 ToFixed (calculateCaloriesBurned userWeight (elapsedTime s2 / 60)) 2]],
               s2\<lparr>lastLoggedTime := elapsedTime s2\<rparr>)
         else ([], s2))"

text \<open>
  The renderer calls \<open>animate\<close> once per frame. \<open>frames fs s\<close> runs the calls for
  the frames \<open>fs\<close> in order from the state \<open>s\<close> and gives what each call logged
  and the state after the last one.
\<close>

fun frames :: "frame list \<Rightarrow> session \<Rightarrow> line list list \<times> session" where
  "frames [] s = ([], s)"
| "frames (f # fs) s =
     (case animate f s of (out, s') \<Rightarrow>
        (case frames fs s' of (outs, s'') \<Rightarrow> (out # outs, s'')))"

definition logged :: "frame list \<Rightarrow> line list list" where
  "logged fs = fst (frames fs initial)"

definition after :: "frame list \<Rightarrow> session" where
  "after fs = snd (frames fs initial)"

text \<open>
  The program has no variable for the two states of the tracker; the guard of
  line 343 reads \<open>startTime === 0\<close> as "not started yet".
\<close>

definition uninitialized :: "session \<Rightarrow> bool" where
  "uninitialized s = (startTime s = 0)"

subsection \<open>What the specification expects of the distance\<close>

text \<open>
  Following the specification's words, not the source: the Euclidean distance in
  3-space, and the sum of the distances between consecutive positions of a
  sequence of samples (a first sample alone contributes zero).
\<close>

definition spec_distance :: "Vector3 \<Rightarrow> Vector3 \<Rightarrow> real" where
  "spec_distance p q = sqrt ((vx p - vx q)\<^sup>2 + (vy p - vy q)\<^sup>2 + (vz p - vz q)\<^sup>2)"

fun spec_path_length :: "Vector3 list \<Rightarrow> real" where
  "spec_path_length (p # q # ps) = spec_distance q p + spec_path_length (q # ps)"
| "spec_path_length _ = 0"

section \<open>One call of animate\<close>

lemma animate_elapsedTime:
  "elapsedTime (snd (animate f s)) = elapsedTime s + clock_delta f"
  by (simp add: animate_def Let_def)

lemma animate_lastLoggedTime:
  "lastLoggedTime (snd (animate f s)) =
     (if 10 \<le> elapsedTime s + clock_delta f - lastLoggedTime s
      then elapsedTime s + clock_delta f else lastLoggedTime s)"
  by (simp add: animate_def Let_def)

lemma animate_startTime:
  "startTime (snd (animate f s)) = (if startTime s = 0 then clock_time f else startTime s)"
  by (simp add: animate_def Let_def)

lemma animate_steps: "steps (snd (animate f s)) = steps s"
  by (simp add: animate_def Let_def)

lemma animate_totalDistance: "totalDistance (snd (animate f s)) = totalDistance s"
  by (simp add: animate_def Let_def)

lemma animate_previousPosition: "previousPosition (snd (animate f s)) = previousPosition s"
  by (simp add: animate_def Let_def)

lemma animate_logs_iff:
  "(fst (animate f s) \<noteq> []) = (10 \<le> elapsedTime s + clock_delta f - lastLoggedTime s)"
  by (simp add: animate_def Let_def)

lemma animate_report:
  assumes "fst (animate f s) \<noteq> []"
  shows "fst (animate f s) =
    [Line [Lit ''Time Elapsed: '', ToFixed (elapsedTime (snd (animate f s))) 2, Lit '' seconds''],
     Line [Lit ''Steps Taken: '', ToStr (steps (snd (animate f s)))],
     Line [Lit ''Total Distance: '', ToFixed (totalDistance (snd (animate f s))) 2, Lit '' meters''],
     Line [Lit ''Calories Burned: '',
      ToFixed (calculateCaloriesBurned userWeight (elapsedTime (snd (animate f s)) / 60)) 2]]"
  using assms by (simp add: animate_def Let_def split: if_splits)

section \<open>Sequences of calls\<close>

lemma frames_snoc:
  "frames (fs @ [f]) s =
     (fst (frames fs s) @ [fst (animate f (snd (frames fs s)))],
      snd (animate f (snd (frames fs s))))"
  by (induction fs arbitrary: s) (simp_all add: split_beta)

lemma length_frames: "length (fst (frames fs s)) = length fs"
  by (induction fs arbitrary: s) (simp_all add: split_beta)

lemma after_Nil: "after [] = initial"
  by (simp add: after_def)

lemma after_snoc: "after (fs @ [f]) = snd (animate f (after fs))"
  by (simp add: after_def frames_snoc)

lemma logged_snoc: "logged (fs @ [f]) = logged fs @ [fst (animate f (after fs))]"
  by (simp add: logged_def after_def frames_snoc)

lemma length_logged: "length (logged fs) = length fs"
  by (simp add: logged_def length_frames)

lemma after_take_Suc:
  "i < length fs \<Longrightarrow> after (take (Suc i) fs) = snd (animate (fs ! i) (after (take i fs)))"
  by (simp add: take_Suc_conv_app_nth after_snoc)

lemma logged_nth:
  "i < length fs \<Longrightarrow> logged fs ! i = fst (animate (fs ! i) (after (take i fs)))"
proof (induction fs arbitrary: i rule: rev_induct)
  case Nil
  then show ?case by simp
next
  case (snoc f fs)
  show ?case
  proof (cases "i < length fs")
    case True
    with snoc.IH [of i] show ?thesis
      by (simp add: logged_snoc nth_append length_logged)
  next
    case False
    with snoc.prems have "i = length fs" by simp
    then show ?thesis
      by (simp add: logged_snoc nth_append length_logged)
  qed
qed

lemma after_elapsedTime: "elapsedTime (after fs) = sum_list (map clock_delta fs)"
  by (induction fs rule: rev_induct) (simp_all add: after_Nil after_snoc animate_elapsedTime initial_def)

lemma after_steps: "steps (after fs) = 0"
  by (induction fs rule: rev_induct) (simp_all add: after_Nil after_snoc animate_steps initial_def)

lemma after_totalDistance: "totalDistance (after fs) = 0"
  by (induction fs rule: rev_induct)
    (simp_all add: after_Nil after_snoc animate_totalDistance initial_def)

lemma after_previousPosition: "previousPosition (after fs) = Vector3 0 0 0"
  by (induction fs rule: rev_induct)
    (simp_all add: after_Nil after_snoc animate_previousPosition initial_def)

section \<open>The calorie estimate\<close>

text \<open>
  C4. \<open>calculateCaloriesBurned\<close> depends on its two arguments only (it reads and
  writes no variable of the module) and returns \<open>(weight / 100) * 8 * duration\<close>
  for every weight and duration; for 50 kg and 1 minute that is 4, for 100 kg
  and 10 minutes it is 80.
\<close>

theorem calculateCaloriesBurned_formula:
  "calculateCaloriesBurned weight duration = (weight / 100) * 8 * duration
   \<and> calculateCaloriesBurned 50 1 = 4
   \<and> calculateCaloriesBurned 100 10 = 80"
  by (simp add: calculateCaloriesBurned_def)

section \<open>Elapsed time\<close>

text \<open>
  C3. For every sequence of calls of \<open>animate\<close>, \<open>elapsedTime\<close> after the N-th
  call is the sum of the first N deltas. The equation needs no assumption on the
  sign of the deltas, so it holds for the non-negative ones in particular.
\<close>

theorem elapsedTime_is_sum_of_deltas:
  "elapsedTime (after (take N fs)) = sum_list (take N (map clock_delta fs))"
  by (simp add: after_elapsedTime take_map)


text \<open>
  C7. With non-negative deltas, \<open>elapsedTime\<close> and \<open>totalDistance\<close> never decrease
  from one call to a later one: the state after m calls is compared with the
  state after n calls of the same sequence, for m \<le> n.
\<close>

theorem elapsedTime_totalDistance_monotone:
  assumes "\<forall>f \<in> set fs. 0 \<le> clock_delta f" and "m \<le> n"
  shows "elapsedTime (after (take m fs)) \<le> elapsedTime (after (take n fs))
         \<and> totalDistance (after (take m fs)) \<le> totalDistance (after (take n fs))"
proof -
  let ?ds = "map clock_delta fs"
  have nonneg: "\<forall>d \<in> set ?ds. 0 \<le> d"
    using assms(1) by simp
  have "set (drop m (take n ?ds)) \<subseteq> set ?ds"
    using set_drop_subset set_take_subset by fastforce
  with nonneg have rest: "0 \<le> sum_list (drop m (take n ?ds))"
    by (intro sum_list_nonneg) blast
  have "take m (take n ?ds) = take m ?ds"
    using assms(2) by (simp add: min_def)
  then have "take n ?ds = take m ?ds @ drop m (take n ?ds)"
    using append_take_drop_id [of m "take n ?ds"] by simp
  then have "sum_list (take n ?ds) = sum_list (take m ?ds) + sum_list (drop m (take n ?ds))"
    using sum_list_append [of "take m ?ds" "drop m (take n ?ds)"] by simp
  with rest have "sum_list (take m ?ds) \<le> sum_list (take n ?ds)"
    by simp
  then show ?thesis
    by (simp add: after_elapsedTime after_totalDistance take_map)
qed

theorem elapsedTime_totalDistance_monotone_witness:
  "0 \<le> clock_delta \<lparr>clock_delta = 1, clock_time = 1, player_position = Vector3 0 0 0\<rparr>
   \<and> 0 \<le> clock_delta \<lparr>clock_delta = 2, clock_time = 3, player_position = Vector3 3 4 0\<rparr>
   \<and> (1::nat) \<le> 2
   \<and> elapsedTime (after (take 1
        [\<lparr>clock_delta = 1, clock_time = 1, player_position = Vector3 0 0 0\<rparr>,
         \<lparr>clock_delta = 2, clock_time = 3, player_position = Vector3 3 4 0\<rparr>]))
      \<le> elapsedTime (after (take 2
        [\<lparr>clock_delta = 1, clock_time = 1, player_position = Vector3 0 0 0\<rparr>,
         \<lparr>clock_delta = 2, clock_time = 3, player_position = Vector3 3 4 0\<rparr>]))
   \<and> totalDistance (after (take 1
        [\<lparr>clock_delta = 1, clock_time = 1, player_position = Vector3 0 0 0\<rparr>,
         \<lparr>clock_delta = 2, clock_time = 3, player_position = Vector3 3 4 0\<rparr>]))
      \<le> totalDistance (after (take 2
        [\<lparr>clock_delta = 1, clock_time = 1, player_position = Vector3 0 0 0\<rparr>,
         \<lparr>clock_delta = 2, clock_time = 3, player_position = Vector3 3 4 0\<rparr>]))"
proof -
  let ?fs = "[\<lparr>clock_delta = 1, clock_time = 1, player_position = Vector3 0 0 0\<rparr>,
              \<lparr>clock_delta = 2, clock_time = 3, player_position = Vector3 3 4 0\<rparr>]"
  have h1: "\<forall>f \<in> set ?fs. 0 \<le> clock_delta f" by simp
  have h2: "(1::nat) \<le> 2" by simp
  from elapsedTime_totalDistance_monotone [OF h1 h2] show ?thesis
    by simp
qed

section \<open>Reports\<close>

lemma animate_lastLoggedTime_mono: "lastLoggedTime s \<le> lastLoggedTime (snd (animate f s))"
  by (simp add: animate_lastLoggedTime)

lemma after_lastLoggedTime_mono:
  "lastLoggedTime (after fs) \<le> lastLoggedTime (after (fs @ gs))"
proof (induction gs rule: rev_induct)
  case Nil
  then show ?case by simp
next
  case (snoc g gs)
  have "lastLoggedTime (after (fs @ gs)) \<le> lastLoggedTime (after ((fs @ gs) @ [g]))"
    unfolding after_snoc by (rule animate_lastLoggedTime_mono)
  with snoc.IH show ?case by simp
qed

lemma reports_ten_apart:
  assumes "i < j" and "j < length fs"
    and "logged fs ! i \<noteq> []" and "logged fs ! j \<noteq> []"
  shows "10 \<le> elapsedTime (after (take (Suc j) fs)) - elapsedTime (after (take (Suc i) fs))"
proof -
  from assms have i: "i < length fs" by simp
  have "lastLoggedTime (after (take (Suc i) fs)) = elapsedTime (after (take (Suc i) fs))"
    using assms(3) i
    by (simp add: logged_nth after_take_Suc animate_logs_iff animate_lastLoggedTime
        animate_elapsedTime)
  moreover have "take j fs = take (Suc i) fs @ drop (Suc i) (take j fs)"
  proof -
    have "take (Suc i) (take j fs) = take (Suc i) fs"
      using assms(1) by (simp add: min_def)
    then show ?thesis
      using append_take_drop_id [of "Suc i" "take j fs"] by simp
  qed
  then have "lastLoggedTime (after (take (Suc i) fs)) \<le> lastLoggedTime (after (take j fs))"
    using after_lastLoggedTime_mono [of "take (Suc i) fs" "drop (Suc i) (take j fs)"] by simp
  moreover have "10 \<le> elapsedTime (after (take (Suc j) fs)) - lastLoggedTime (after (take j fs))"
    using assms(2,4)
    by (simp add: logged_nth after_take_Suc animate_logs_iff animate_elapsedTime)
  ultimately show ?thesis by simp
qed

text \<open>
  C2. A call of \<open>animate\<close> logs a report exactly when the elapsed time it has just
  computed is at least 10 above \<open>lastLoggedTime\<close>, and a call that logs leaves
  \<open>lastLoggedTime\<close> equal to that elapsed time. Hence any two reports of a run are
  at least 10 seconds of elapsed time apart. For 11 calls with delta 1 at a
  constant position, the only report is on call 10, where the elapsed time is 10.
\<close>

theorem report_cadence:
  "(fst (animate f s) \<noteq> []) = (10 \<le> elapsedTime (snd (animate f s)) - lastLoggedTime s)
   \<and> (fst (animate f s) \<noteq> [] \<longrightarrow>
        lastLoggedTime (snd (animate f s)) = elapsedTime (snd (animate f s)))
   \<and> (i < j \<and> j < length fs \<and> logged fs ! i \<noteq> [] \<and> logged fs ! j \<noteq> [] \<longrightarrow>
        10 \<le> elapsedTime (after (take (Suc j) fs)) - elapsedTime (after (take (Suc i) fs)))
   \<and> map (\<lambda>out. out \<noteq> [])
        (logged (map (\<lambda>t. \<lparr>clock_delta = 1, clock_time = t, player_position = p\<rparr>)
           [1, 2, 3, 4, 5, 6, 7, 8, 9, 10, 11]))
      = [False, False, False, False, False, False, False, False, False, True, False]
   \<and> elapsedTime (after (map (\<lambda>t. \<lparr>clock_delta = 1, clock_time = t, player_position = p\<rparr>)
        [1, 2, 3, 4, 5, 6, 7, 8, 9, 10])) = 10"
proof (intro conjI)
  show "(fst (animate f s) \<noteq> []) = (10 \<le> elapsedTime (snd (animate f s)) - lastLoggedTime s)"
    by (simp add: animate_logs_iff animate_elapsedTime)
  show "fst (animate f s) \<noteq> [] \<longrightarrow>
      lastLoggedTime (snd (animate f s)) = elapsedTime (snd (animate f s))"
    by (simp add: animate_logs_iff animate_lastLoggedTime animate_elapsedTime)
  show "i < j \<and> j < length fs \<and> logged fs ! i \<noteq> [] \<and> logged fs ! j \<noteq> [] \<longrightarrow>
      10 \<le> elapsedTime (after (take (Suc j) fs)) - elapsedTime (after (take (Suc i) fs))"
    using reports_ten_apart by blast
  show "map (\<lambda>out. out \<noteq> [])
        (logged (map (\<lambda>t. \<lparr>clock_delta = 1, clock_time = t, player_position = p\<rparr>)
           [1, 2, 3, 4, 5, 6, 7, 8, 9, 10, 11]))
      = [False, False, False, False, False, False, False, False, False, True, False]"
    by (simp add: logged_def animate_def initial_def Let_def)
  show "elapsedTime (after (map (\<lambda>t. \<lparr>clock_delta = 1, clock_time = t, player_position = p\<rparr>)
        [1, 2, 3, 4, 5, 6, 7, 8, 9, 10])) = 10"
    by (simp add: after_elapsedTime)
qed

theorem report_cadence_witness:
  "fst (animate \<lparr>clock_delta = 10, clock_time = 10, player_position = Vector3 0 0 0\<rparr> initial) \<noteq> []
   \<and> lastLoggedTime (snd (animate
        \<lparr>clock_delta = 10, clock_time = 10, player_position = Vector3 0 0 0\<rparr> initial)) = 10
   \<and> (0::nat) < 1 \<and> 1 < length [\<lparr>clock_delta = 10, clock_time = 10, player_position = Vector3 0 0 0\<rparr>,
           \<lparr>clock_delta = 12, clock_time = 22, player_position = Vector3 0 0 0\<rparr>]
   \<and> logged [\<lparr>clock_delta = 10, clock_time = 10, player_position = Vector3 0 0 0\<rparr>,
           \<lparr>clock_delta = 12, clock_time = 22, player_position = Vector3 0 0 0\<rparr>] ! 0 \<noteq> []
   \<and> logged [\<lparr>clock_delta = 10, clock_time = 10, player_position = Vector3 0 0 0\<rparr>,
           \<lparr>clock_delta = 12, clock_time = 22, player_position = Vector3 0 0 0\<rparr>] ! 1 \<noteq> []
   \<and> 10 \<le> elapsedTime (after (take (Suc 1)
          [\<lparr>clock_delta = 10, clock_time = 10, player_position = Vector3 0 0 0\<rparr>,
           \<lparr>clock_delta = 12, clock_time = 22, player_position = Vector3 0 0 0\<rparr>]))
        - elapsedTime (after (take (Suc 0)
          [\<lparr>clock_delta = 10, clock_time = 10, player_position = Vector3 0 0 0\<rparr>,
           \<lparr>clock_delta = 12, clock_time = 22, player_position = Vector3 0 0 0\<rparr>]))"
proof -
  let ?f = "\<lparr>clock_delta = 10, clock_time = 10, player_position = Vector3 0 0 0\<rparr>"
  let ?fs = "[?f, \<lparr>clock_delta = 12, clock_time = 22, player_position = Vector3 0 0 0\<rparr>]"
  have h1: "fst (animate ?f initial) \<noteq> []"
    by (simp add: animate_def initial_def Let_def)
  have h2: "(0::nat) < 1 \<and> 1 < length ?fs \<and> logged ?fs ! 0 \<noteq> [] \<and> logged ?fs ! 1 \<noteq> []"
    by (simp add: logged_def animate_def initial_def Let_def)
  have e: "elapsedTime (snd (animate ?f initial)) = 10"
    by (simp add: animate_def initial_def Let_def)
  from h1 h2 e report_cadence [of ?f initial 0 1 ?fs] show ?thesis
    by simp
qed


text \<open>
  C9. Every report that a run logs has exactly four lines, each opening with its
  fixed label, carrying in this order: the elapsed time through \<open>toFixed(2)\<close>,
  the step count, the total distance through \<open>toFixed(2)\<close>, and the calorie
  estimate (through \<open>toFixed(2)\<close> as well). The values are those of the state
  that the reporting call leaves.
\<close>

theorem report_has_four_labelled_lines:
  assumes "i < length fs" and "logged fs ! i \<noteq> []"
  shows "logged fs ! i =
    [Line [Lit ''Time Elapsed: '', ToFixed (elapsedTime (after (take (Suc i) fs))) 2, Lit '' seconds''],
     Line [Lit ''Steps Taken: '', ToStr (steps (after (take (Suc i) fs)))],
     Line [Lit ''Total Distance: '', ToFixed (totalDistance (after (take (Suc i) fs))) 2,
      Lit '' meters''],
     Line [Lit ''Calories Burned: '',
      ToFixed (calculateCaloriesBurned userWeight (elapsedTime (after (take (Suc i) fs)) / 60)) 2]]
    \<and> length (logged fs ! i) = 4"
proof -
  let ?out = "fst (animate (fs ! i) (after (take i fs)))"
  from assms have out: "logged fs ! i = ?out" and ne: "?out \<noteq> []"
    by (simp_all add: logged_nth)
  from assms(1) have st: "after (take (Suc i) fs) = snd (animate (fs ! i) (after (take i fs)))"
    by (rule after_take_Suc)
  from animate_report [OF ne] show ?thesis
    unfolding out st by simp
qed

theorem report_has_four_labelled_lines_witness:
  "(0::nat) < length [\<lparr>clock_delta = 12, clock_time = 12, player_position = Vector3 0 0 0\<rparr>]
   \<and> logged [\<lparr>clock_delta = 12, clock_time = 12, player_position = Vector3 0 0 0\<rparr>] ! 0 \<noteq> []
   \<and> logged [\<lparr>clock_delta = 12, clock_time = 12, player_position = Vector3 0 0 0\<rparr>] ! 0 =
       [Line [Lit ''Time Elapsed: '', ToFixed 12 2, Lit '' seconds''],
        Line [Lit ''Steps Taken: '', ToStr 0],
        Line [Lit ''Total Distance: '', ToFixed 0 2, Lit '' meters''],
        Line [Lit ''Calories Burned: '', ToFixed (4 / 5) 2]]"
proof -
  let ?fs = "[\<lparr>clock_delta = 12, clock_time = 12, player_position = Vector3 0 0 0\<rparr>]"
  have h1: "(0::nat) < length ?fs" by simp
  have h2: "logged ?fs ! 0 \<noteq> []"
    by (simp add: logged_def animate_def initial_def Let_def)
  have st: "after (take (Suc 0) ?fs) = \<lparr> startTime = 12, elapsedTime = 12, lastLoggedTime = 12,
      steps = 0, totalDistance = 0, previousPosition = Vector3 0 0 0 \<rparr>"
    by (simp add: after_def animate_def initial_def Let_def)
  from h1 h2 report_has_four_labelled_lines [OF h1 h2] show ?thesis
    unfolding st by (simp add: calculateCaloriesBurned_def userWeight_def)
qed

text \<open>
  C10. The calorie value of every report of a run is
  \<open>calculateCaloriesBurned userWeight (elapsedTime / 60)\<close> with \<open>userWeight = 50\<close>,
  that is \<open>(50 / 100) * 8 * (elapsedTime / 60)\<close>, where \<open>elapsedTime\<close> is the value
  accumulated up to and including the reporting call: the sum of the deltas so
  far, whatever the clock's absolute time is.
\<close>

theorem report_calories_from_elapsedTime:
  assumes "i < length fs" and "logged fs ! i \<noteq> []"
  shows "logged fs ! i ! 3 =
      Line [Lit ''Calories Burned: '',
       ToFixed (calculateCaloriesBurned userWeight (elapsedTime (after (take (Suc i) fs)) / 60)) 2]
    \<and> userWeight = 50
    \<and> calculateCaloriesBurned userWeight (elapsedTime (after (take (Suc i) fs)) / 60)
        = (50 / 100) * 8 * (elapsedTime (after (take (Suc i) fs)) / 60)
    \<and> elapsedTime (after (take (Suc i) fs)) = sum_list (take (Suc i) (map clock_delta fs))"
proof -
  let ?out = "fst (animate (fs ! i) (after (take i fs)))"
  from assms have out: "logged fs ! i = ?out" and ne: "?out \<noteq> []"
    by (simp_all add: logged_nth)
  from assms(1) have st: "after (take (Suc i) fs) = snd (animate (fs ! i) (after (take i fs)))"
    by (rule after_take_Suc)
  have "?out ! 3 = Line [Lit ''Calories Burned: '',
      ToFixed (calculateCaloriesBurned userWeight
        (elapsedTime (snd (animate (fs ! i) (after (take i fs)))) / 60)) 2]"
    by (subst animate_report [OF ne]) simp
  then have "logged fs ! i ! 3 = Line [Lit ''Calories Burned: '',
      ToFixed (calculateCaloriesBurned userWeight
        (elapsedTime (after (take (Suc i) fs)) / 60)) 2]"
    unfolding out st .
  moreover have "elapsedTime (after (take (Suc i) fs)) = sum_list (take (Suc i) (map clock_delta fs))"
    unfolding after_elapsedTime take_map ..
  ultimately show ?thesis
    by (simp add: userWeight_def calculateCaloriesBurned_def)
qed

theorem report_calories_from_elapsedTime_witness:
  "(1::nat) < length [\<lparr>clock_delta = 3, clock_time = 100, player_position = Vector3 0 0 0\<rparr>,
                      \<lparr>clock_delta = 12, clock_time = 200, player_position = Vector3 0 0 0\<rparr>]
   \<and> logged [\<lparr>clock_delta = 3, clock_time = 100, player_position = Vector3 0 0 0\<rparr>,
             \<lparr>clock_delta = 12, clock_time = 200, player_position = Vector3 0 0 0\<rparr>] ! 1 \<noteq> []
   \<and> logged [\<lparr>clock_delta = 3, clock_time = 100, player_position = Vector3 0 0 0\<rparr>,
             \<lparr>clock_delta = 12, clock_time = 200, player_position = Vector3 0 0 0\<rparr>] ! 1 ! 3
       = Line [Lit ''Calories Burned: '', ToFixed 1 2]"
proof -
  let ?fs = "[\<lparr>clock_delta = 3, clock_time = 100, player_position = Vector3 0 0 0\<rparr>,
              \<lparr>clock_delta = 12, clock_time = 200, player_position = Vector3 0 0 0\<rparr>]"
  have h1: "(1::nat) < length ?fs" by simp
  have h2: "logged ?fs ! 1 \<noteq> []"
    by (simp add: logged_def animate_def initial_def Let_def)
  from h1 h2 report_calories_from_elapsedTime [OF h1 h2] show ?thesis
    by (simp add: after_elapsedTime)
qed

section \<open>Steps, distance and position\<close>

text \<open>
  C8. No call of \<open>animate\<close> changes \<open>steps\<close>, so it is 0 in every state that a
  run from the initial state reaches, and the second line of every report of a
  run shows the step count 0.
\<close>

theorem steps_always_zero:
  "steps (snd (animate f s)) = steps s
   \<and> steps (after fs) = 0
   \<and> (i < length fs \<and> logged fs ! i \<noteq> [] \<longrightarrow>
        logged fs ! i ! 1 = Line [Lit ''Steps Taken: '', ToStr 0])"
proof (intro conjI impI)
  show "steps (snd (animate f s)) = steps s"
    by (rule animate_steps)
  show "steps (after fs) = 0"
    by (rule after_steps)
  assume a: "i < length fs \<and> logged fs ! i \<noteq> []"
  let ?out = "fst (animate (fs ! i) (after (take i fs)))"
  from a have i: "i < length fs" and l: "logged fs ! i \<noteq> []"
    by simp_all
  then have out: "logged fs ! i = ?out" and ne: "?out \<noteq> []"
    by (simp_all add: logged_nth)
  have "?out ! 1 = Line [Lit ''Steps Taken: '', ToStr (steps (snd (animate (fs ! i) (after (take i fs)))))]"
    by (subst animate_report [OF ne]) simp
  then show "logged fs ! i ! 1 = Line [Lit ''Steps Taken: '', ToStr 0]"
    unfolding out by (simp add: animate_steps after_steps)
qed

theorem steps_always_zero_witness:
  "(0::nat) < length [\<lparr>clock_delta = 10, clock_time = 10, player_position = Vector3 3 4 0\<rparr>]
   \<and> logged [\<lparr>clock_delta = 10, clock_time = 10, player_position = Vector3 3 4 0\<rparr>] ! 0 \<noteq> []
   \<and> logged [\<lparr>clock_delta = 10, clock_time = 10, player_position = Vector3 3 4 0\<rparr>] ! 0 ! 1
       = Line [Lit ''Steps Taken: '', ToStr 0]"
proof -
  let ?fs = "[\<lparr>clock_delta = 10, clock_time = 10, player_position = Vector3 3 4 0\<rparr>]"
  have h: "(0::nat) < length ?fs \<and> logged ?fs ! 0 \<noteq> []"
    by (simp add: logged_def animate_def initial_def Let_def)
  from h steps_always_zero [of _ _ ?fs 0] show ?thesis
    by blast
qed

text \<open>
  C1. After N calls \<open>totalDistance\<close> should be the sum of the Euclidean distances
  between consecutive player positions, the first call contributing zero; line
  170 declares it as the total distance moved and line 354 reports it. No line
  of \<open>animate\<close> reads the player's position or writes \<open>totalDistance\<close>: after a
  first call at (0, 0, 0) and a second call at (3, 4, 0) the path length is 5,
  and \<open>totalDistance\<close> is still 0.
\<close>

theorem totalDistance_not_accumulated_scenario_B:
  "spec_path_length [Vector3 0 0 0, Vector3 3 4 0] = 5
   \<and> totalDistance (after [\<lparr>clock_delta = 1, clock_time = 1, player_position = Vector3 0 0 0\<rparr>,
        \<lparr>clock_delta = 1, clock_time = 2, player_position = Vector3 3 4 0\<rparr>]) = 0
   \<and> totalDistance (after [\<lparr>clock_delta = 1, clock_time = 1, player_position = Vector3 0 0 0\<rparr>,
        \<lparr>clock_delta = 1, clock_time = 2, player_position = Vector3 3 4 0\<rparr>]) \<noteq> 5"
proof (intro conjI)
  have "sqrt ((3 - 0)\<^sup>2 + (4 - 0)\<^sup>2 + (0 - 0)\<^sup>2) = (5::real)"
    by (rule real_sqrt_unique) simp_all
  then show "spec_path_length [Vector3 0 0 0, Vector3 3 4 0] = 5"
    by (simp add: spec_distance_def)
  show "totalDistance (after [\<lparr>clock_delta = 1, clock_time = 1, player_position = Vector3 0 0 0\<rparr>,
        \<lparr>clock_delta = 1, clock_time = 2, player_position = Vector3 3 4 0\<rparr>]) = 0"
    by (simp add: after_def animate_def initial_def Let_def)
  show "totalDistance (after [\<lparr>clock_delta = 1, clock_time = 1, player_position = Vector3 0 0 0\<rparr>,
        \<lparr>clock_delta = 1, clock_time = 2, player_position = Vector3 3 4 0\<rparr>]) \<noteq> 5"
    by (simp add: after_def animate_def initial_def Let_def)
qed

text \<open>
  C6. After every call \<open>previousPosition\<close> should be the player position of that
  call, report or not; line 171 declares it as the last recorded position of the
  user. No line of \<open>animate\<close> writes it: after a call made while the player is at
  (3, 4, 0), a call that logs a report as well as one that does not, it is still
  (0, 0, 0).
\<close>

theorem previousPosition_not_updated:
  "previousPosition (after [\<lparr>clock_delta = 1, clock_time = 1, player_position = Vector3 3 4 0\<rparr>])
     = Vector3 0 0 0
   \<and> logged [\<lparr>clock_delta = 1, clock_time = 1, player_position = Vector3 3 4 0\<rparr>] ! 0 = []
   \<and> previousPosition (after [\<lparr>clock_delta = 10, clock_time = 10, player_position = Vector3 3 4 0\<rparr>])
     = Vector3 0 0 0
   \<and> logged [\<lparr>clock_delta = 10, clock_time = 10, player_position = Vector3 3 4 0\<rparr>] ! 0 \<noteq> []
   \<and> Vector3 0 0 0 \<noteq> Vector3 3 4 0"
  by (simp add: after_def logged_def animate_def initial_def Let_def)

section \<open>Start of the session\<close>

lemma after_Cons_startTime:
  "clock_time f \<noteq> 0 \<Longrightarrow> startTime (after (f # fs)) = clock_time f"
proof (induction fs rule: rev_induct)
  case Nil
  then show ?case
    using after_snoc [of "[]" f] by (simp add: after_Nil animate_startTime initial_def)
next
  case (snoc g gs)
  have "after (f # gs @ [g]) = snd (animate g (after (f # gs)))"
    using after_snoc [of "f # gs" g] by simp
  with snoc show ?case
    by (simp add: animate_startTime)
qed

text \<open>
  When the clock time of the first call is not 0, that call sets \<open>startTime\<close> to
  it and leaves the tracker running, and after every further call \<open>startTime\<close>
  is still the first call's clock time.
\<close>

lemma startTime_kept_when_first_clock_time_nonzero:
  assumes "clock_time f \<noteq> 0"
  shows "uninitialized initial
    \<and> startTime (after [f]) = clock_time f \<and> \<not> uninitialized (after [f])
    \<and> startTime (after (f # fs)) = clock_time f \<and> \<not> uninitialized (after (f # fs))"
  using assms after_Cons_startTime [OF assms, of fs] after_Cons_startTime [OF assms, of "[]"]
  by (simp add: uninitialized_def initial_def)

text \<open>
  C5. For strictly increasing clock times the tracker should leave the
  uninitialized state on the first call, which sets \<open>startTime\<close>, and no later call
  should assign \<open>startTime\<close> again. The guard of line 343 takes the value 0 for
  "not set": with the strictly increasing clock times 0 and 1, the tracker is
  still uninitialized after the first call (\<open>startTime\<close> is 0), and the second
  call assigns \<open>startTime\<close> again, to 1.
\<close>

theorem startTime_reassigned_after_zero_clock_time:
  "sorted_wrt (<) (map clock_time
      [\<lparr>clock_delta = 0, clock_time = 0, player_position = Vector3 0 (3/2) 50\<rparr>,
       \<lparr>clock_delta = 1, clock_time = 1, player_position = Vector3 0 (3/2) 50\<rparr>])
   \<and> uninitialized (after [\<lparr>clock_delta = 0, clock_time = 0, player_position = Vector3 0 (3/2) 50\<rparr>])
   \<and> startTime (after [\<lparr>clock_delta = 0, clock_time = 0, player_position = Vector3 0 (3/2) 50\<rparr>]) = 0
   \<and> startTime (after [\<lparr>clock_delta = 0, clock_time = 0, player_position = Vector3 0 (3/2) 50\<rparr>,
       \<lparr>clock_delta = 1, clock_time = 1, player_position = Vector3 0 (3/2) 50\<rparr>]) = 1"
  by (simp add: uninitialized_def after_def animate_def initial_def Let_def)

end
